theory Spec2Isabelle
  imports Complex_Main "HOL-Library.Char_ord" "HOL-Library.List_Lexorder"
begin

section \<open>Values, errors and the notebook kernel\<close>

text \<open>
  The notebooks are Python cells run one after the other in one kernel.  A raised
  exception is a value \<open>Inl e\<close> of a sum type; a cell or function that completes
  returns \<open>Inr v\<close>.  Python's integers are \<open>int\<close>.  Counts of samples are numpy
  \<open>int64\<close> values; no count of samples held in memory comes near the end of that range,
  nor does such a count times a constant of a cell, so they are \<open>int\<close> as well.  Where
  an integer of the caller meets a count (the weights of the scoring functions) the 64-bit
  arithmetic is written out.  Floats are idealised: they are \<open>real\<close> with no rounding,
  and numpy's \<open>nan\<close> is a value of its own.
\<close>

datatype error =
    ValueError
  | KeyError
  | IndexError
  | FileNotFoundError
  | PermissionError
  | UnpicklingError
  | PicklingError
  | NotFittedError
  | OverflowError

datatype npfloat = NaN | Num real

datatype pyval = IntV int | FloatV npfloat

text \<open>
  A file has the two permission bits that \<open>open\<close> looks at and its bytes (a HOL
  \<open>char\<close> is a byte).  The kernel state that the cells of the notebooks share is the
  working directory and what has been printed so far.
\<close>

record file_entry =
  readable :: bool
  writable :: bool
  content :: string

record kernel =
  files :: "string \<rightharpoonup> file_entry"
  stdout :: "pyval list"

definition bind_result :: "error + 'a \<Rightarrow> ('a \<Rightarrow> error + 'c) \<Rightarrow> error + 'c" where
  "bind_result r f = (case r of Inl e \<Rightarrow> Inl e | Inr v \<Rightarrow> f v)"

definition print :: "pyval \<Rightarrow> kernel \<Rightarrow> kernel" where
  "print v k = k\<lparr>stdout := stdout k @ [v]\<rparr>"

section \<open>The confusion matrix of the library\<close>

text \<open>
  Modelled from the spec: \<open>confusion_matrix\<close> is scikit-learn's function, called by the
  notebooks and not part of the repository; the spec speaks of "arithmetic over a confusion
  matrix" with false-positive and false-negative counts.  The model follows the library's
  documented behaviour: with no \<open>labels\<close> argument the labels are those that appear at
  least once in \<open>y_true\<close> or \<open>y_pred\<close>, in sorted order; entry \<open>(i, j)\<close> is the
  number of samples whose true label is the \<open>i\<close>-th label and whose predicted label is
  the \<open>j\<close>-th; vectors of different lengths are refused with \<open>ValueError\<close>.  For two
  labels the matrix is \<open>[[tn, fp], [fn, tp]]\<close>; for a single label it is one by one.
  (For empty vectors the model answers the empty matrix; whether the library answers that
  or raises \<open>ValueError\<close> itself, its callers below raise \<open>ValueError\<close>.)
\<close>

definition unique_labels :: "'a::linorder list \<Rightarrow> 'a list \<Rightarrow> 'a list" where
  "unique_labels y_true y_pred = sort (remdups (y_true @ y_pred))"

definition confusion_matrix :: "'a::linorder list \<Rightarrow> 'a list \<Rightarrow> error + int list list" where
  "confusion_matrix y_true y_pred =
     (if length y_true \<noteq> length y_pred then Inl ValueError
      else let labels = unique_labels y_true y_pred
           in Inr (map (\<lambda>t. map (\<lambda>p. int (count_list (zip y_true y_pred) (t, p))) labels)
                    labels))"

text \<open>numpy's \<open>ravel\<close> of a two-dimensional array: the rows one after the other.\<close>

definition ravel :: "'a list list \<Rightarrow> 'a list" where
  "ravel m = concat m"

section \<open>Functions that run in the kernel\<close>

text \<open>
  A function that a cell calls runs in the kernel of the notebook: a call takes the
  kernel state and gives back its outcome, a value or an exception, with the kernel state
  that it leaves.  The statements of a body are bound one to the next, and an exception
  ends the body where it is raised.  A computation on values (a library function applied
  to its arguments, numpy arithmetic) gives its outcome and leaves the kernel as it is;
  \<open>print\<close> appends to the output.
\<close>

type_synonym 'a py = "kernel \<Rightarrow> (error + 'a) \<times> kernel"

definition return_py :: "'a \<Rightarrow> 'a py" where
  "return_py v = (\<lambda>k. (Inr v, k))"

definition raise_py :: "error \<Rightarrow> 'a py" where
  "raise_py e = (\<lambda>k. (Inl e, k))"

definition bind_py :: "'a py \<Rightarrow> ('a \<Rightarrow> 'c py) \<Rightarrow> 'c py" where
  "bind_py m f = (\<lambda>k. case m k of (Inl e, k') \<Rightarrow> (Inl e, k') | (Inr v, k') \<Rightarrow> f v k')"

definition compute :: "error + 'a \<Rightarrow> 'a py" where
  "compute r = (case r of Inl e \<Rightarrow> raise_py e | Inr v \<Rightarrow> return_py v)"

definition print_py :: "pyval \<Rightarrow> unit py" where
  "print_py v = (\<lambda>k. (Inr (), print v k))"

section \<open>Arithmetic on numpy integers\<close>

text \<open>
  The entries of a confusion matrix are numpy \<open>int64\<close> scalars.  A Python float times
  such a count is a float.  A Python integer times such a count is computed in \<open>int64\<close>:
  the product wraps around modulo \<open>2^64\<close> (numpy warns and goes on), and a Python
  integer that is itself outside the \<open>int64\<close> range is refused with
  \<open>OverflowError\<close> (numpy 2; older versions convert such an integer to another type).
  The sum of two \<open>int64\<close> values wraps around in the same way; a sum with a float is a
  float.  In \<open>pyval\<close>, \<open>IntV\<close> holds an \<open>int64\<close> here.
\<close>

datatype pynum = PyInt int | PyFloat real

definition in_int64 :: "int \<Rightarrow> bool" where
  "in_int64 x = (- (2 ^ 63) \<le> x \<and> x < 2 ^ 63)"

definition wrap64 :: "int \<Rightarrow> int" where
  "wrap64 x = (x + 2 ^ 63) mod 2 ^ 64 - 2 ^ 63"

fun np_mul :: "pynum \<Rightarrow> int \<Rightarrow> error + pyval" where
  "np_mul (PyInt c) n = (if in_int64 c then Inr (IntV (wrap64 (c * n))) else Inl OverflowError)"
| "np_mul (PyFloat c) n = Inr (FloatV (Num (c * real_of_int n)))"

fun np_add :: "pyval \<Rightarrow> pyval \<Rightarrow> pyval" where
  "np_add (IntV a) (IntV b) = IntV (wrap64 (a + b))"
| "np_add (IntV a) (FloatV (Num b)) = FloatV (Num (real_of_int a + b))"
| "np_add (FloatV (Num a)) (IntV b) = FloatV (Num (a + real_of_int b))"
| "np_add (FloatV (Num a)) (FloatV (Num b)) = FloatV (Num (a + b))"
| "np_add _ _ = FloatV NaN"

section \<open>The cost-weighted scoring functions\<close>

text \<open>
  \<^verbatim>\<open>
  def my_metric(y_test, y_est, cost_fp=10.0, cost_fn=1.0):
      tn, fp, fn, tp = confusion_matrix(y_test, y_est).ravel()
      return cost_fp * fp + cost_fn * fn
  \<close>
  (notebook 00) and \<open>my_scorer\<close> (notebook 01), with the same body.  A keyword argument
  with a default is an \<open>option\<close>: \<open>None\<close> when the caller leaves it out.  A weight is a
  Python number.  The tuple assignment raises \<open>ValueError\<close> unless the ravelled matrix
  has exactly four entries.
\<close>

definition kwarg :: "'a \<Rightarrow> 'a option \<Rightarrow> 'a" where
  "kwarg d a = (case a of None \<Rightarrow> d | Some v \<Rightarrow> v)"

definition unpack4 :: "'a list \<Rightarrow> ('a \<times> 'a \<times> 'a \<times> 'a) py" where
  "unpack4 xs = (case xs of [a, b, c, d] \<Rightarrow> return_py (a, b, c, d) | _ \<Rightarrow> raise_py ValueError)"

definition my_metric ::
  "'a::linorder list \<Rightarrow> 'a list \<Rightarrow> pynum option \<Rightarrow> pynum option \<Rightarrow> pyval py" where
  "my_metric y_test y_est cost_fp_arg cost_fn_arg =
     (let cost_fp = kwarg (PyFloat 10.0) cost_fp_arg; cost_fn = kwarg (PyFloat 1.0) cost_fn_arg
      in bind_py (compute (confusion_matrix y_test y_est)) (\<lambda>cm.
         bind_py (unpack4 (ravel cm)) (\<lambda>(tn, fp, fn, tp).
         bind_py (compute (np_mul cost_fp fp)) (\<lambda>weighted_fp.
         bind_py (compute (np_mul cost_fn fn)) (\<lambda>weighted_fn.
           return_py (np_add weighted_fp weighted_fn))))))"

definition my_scorer ::
  "'a::linorder list \<Rightarrow> 'a list \<Rightarrow> pynum option \<Rightarrow> pynum option \<Rightarrow> pyval py" where
  "my_scorer y_test y_est cost_fp_arg cost_fn_arg =
     (let cost_fp = kwarg (PyFloat 10.0) cost_fp_arg; cost_fn = kwarg (PyFloat 1.0) cost_fn_arg
      in bind_py (compute (confusion_matrix y_test y_est)) (\<lambda>cm.
         bind_py (unpack4 (ravel cm)) (\<lambda>(tn, fp, fn, tp).
         bind_py (compute (np_mul cost_fp fp)) (\<lambda>weighted_fp.
         bind_py (compute (np_mul cost_fn fn)) (\<lambda>weighted_fn.
           return_py (np_add weighted_fp weighted_fn))))))"

text \<open>
  The counts as the specification words them: the number of indices at which the true
  label is false and the predicted one true, and the other way round.
\<close>

definition false_positive_count :: "bool list \<Rightarrow> bool list \<Rightarrow> nat" where
  "false_positive_count y_test y_est =
     length (filter (\<lambda>i. \<not> y_test ! i \<and> y_est ! i) [0..<length y_test])"

definition false_negative_count :: "bool list \<Rightarrow> bool list \<Rightarrow> nat" where
  "false_negative_count y_test y_est =
     length (filter (\<lambda>i. y_test ! i \<and> \<not> y_est ! i) [0..<length y_test])"

definition both_labels_occur :: "bool list \<Rightarrow> bool list \<Rightarrow> bool" where
  "both_labels_occur y_test y_est = (True \<in> set (y_test @ y_est) \<and> False \<in> set (y_test @ y_est))"

section \<open>Feature extraction\<close>

text \<open>
  \<^verbatim>\<open>
  def featurize(df):
      return {
          'unique_ports': len(set(df['destination_port'])),
          'average_packet': np.mean(df['packet_count']),
          'average_duration': np.mean(df['duration'])
      }
  \<close>
  A table is a map from column names to columns of numbers; reading a column that the
  table does not have raises \<open>KeyError\<close>.  The returned dictionary is a map from field
  names to values.  \<open>len(set(xs))\<close> builds the set by dropping repeated elements and
  counts what is left.  \<open>np.mean\<close> adds the entries up and divides by their number; on
  an empty column numpy answers \<open>nan\<close> (with a warning, not an exception).
\<close>

type_synonym dataframe = "string \<rightharpoonup> real list"

definition column :: "dataframe \<Rightarrow> string \<Rightarrow> error + real list" where
  "column df name = (case df name of None \<Rightarrow> Inl KeyError | Some xs \<Rightarrow> Inr xs)"

definition len_set :: "'a list \<Rightarrow> nat" where
  "len_set xs = length (remdups xs)"

definition np_mean :: "real list \<Rightarrow> npfloat" where
  "np_mean xs = (if xs = [] then NaN else Num (sum_list xs / real (length xs)))"

definition featurize :: "dataframe \<Rightarrow> error + (string \<rightharpoonup> pyval)" where
  "featurize df =
     bind_result (column df ''destination_port'') (\<lambda>ports.
     bind_result (column df ''packet_count'') (\<lambda>packets.
     bind_result (column df ''duration'') (\<lambda>durations.
       Inr [''unique_ports'' \<mapsto> IntV (int (len_set ports)),
            ''average_packet'' \<mapsto> FloatV (np_mean packets),
            ''average_duration'' \<mapsto> FloatV (np_mean durations)])))"

section \<open>The feature transformer on arrays\<close>

text \<open>
  \<^verbatim>\<open>
  def more_than_average(X, multiplier=1.0):
    Z = X.copy()
    Z[:,1] = Z[:,1] > multiplier*np.mean(Z[:,1])
    return Z
  \<close>
  numpy arrays are mutable objects, so the function is modelled over a store: the heap is
  the list of the arrays allocated so far, and a reference is an index into it.
  \<open>X.copy()\<close> allocates a new array with the same entries; the slice assignment
  overwrites column 1 of the array that \<open>Z\<close> refers to, in place, the truth values
  stored as the numbers 1 and 0.  A two-dimensional array is its number of columns and
  its rows.  Column 1 of an array with fewer than two columns is an \<open>IndexError\<close>.  A
  comparison with \<open>nan\<close> is false.  (Python has no reference outside the heap; the model
  answers \<open>IndexError\<close> for one, so that no case is left open.)
\<close>

record ndarray =
  ncols :: nat
  rows :: "real list list"

type_synonym heap = "ndarray list"

definition wf_ndarray :: "ndarray \<Rightarrow> bool" where
  "wf_ndarray a = list_all (\<lambda>r. length r = ncols a) (rows a)"

definition np_copy :: "heap \<Rightarrow> nat \<Rightarrow> error + nat \<times> heap" where
  "np_copy h x = (if x < length h then Inr (length h, h @ [h ! x]) else Inl IndexError)"

definition get_column1 :: "heap \<Rightarrow> nat \<Rightarrow> error + real list" where
  "get_column1 h z =
     (if z < length h \<and> 2 \<le> ncols (h ! z) then Inr (map (\<lambda>r. r ! 1) (rows (h ! z)))
      else Inl IndexError)"

definition greater_than :: "real list \<Rightarrow> real \<Rightarrow> npfloat \<Rightarrow> bool list" where
  "greater_than col multiplier m =
     map (\<lambda>v. case m of NaN \<Rightarrow> False | Num mean \<Rightarrow> v > multiplier * mean) col"

definition set_column1 :: "heap \<Rightarrow> nat \<Rightarrow> bool list \<Rightarrow> error + heap" where
  "set_column1 h z flags =
     (if z < length h \<and> 2 \<le> ncols (h ! z) \<and> length flags = length (rows (h ! z))
      then Inr (h[z := (h ! z)\<lparr>rows := map2 (\<lambda>r b. r[1 := of_bool b]) (rows (h ! z)) flags\<rparr>])
      else Inl IndexError)"

definition more_than_average :: "heap \<Rightarrow> nat \<Rightarrow> real option \<Rightarrow> error + nat \<times> heap" where
  "more_than_average h X multiplier_arg =
     (let multiplier = kwarg 1.0 multiplier_arg
      in bind_result (np_copy h X) (\<lambda>(Z, h1).
         bind_result (get_column1 h1 Z) (\<lambda>col.
         bind_result (get_column1 h1 Z) (\<lambda>col'.
         bind_result (set_column1 h1 Z (greater_than col multiplier (np_mean col'))) (\<lambda>h2.
           Inr (Z, h2))))))"

section \<open>Library calls on models and files\<close>

text \<open>
  Model fitting, prediction, the F1 score and pickle's byte format are the library's; the
  cells only sequence them.  They are parameters of the cells: any function may stand for
  each, and each may raise.  \<open>'m\<close> is the type of fitted models, \<open>'x\<close> of feature
  tables, \<open>'y\<close> of label vectors.
\<close>

record ('m, 'x, 'y) library =
  fit_random_forest :: "nat \<Rightarrow> 'x \<Rightarrow> 'y \<Rightarrow> error + 'm"
  fit_gaussian_nb :: "'x \<Rightarrow> 'y \<Rightarrow> error + 'm"
  predict :: "'m \<Rightarrow> 'x \<Rightarrow> error + 'y"
  f1_score :: "'y \<Rightarrow> 'y \<Rightarrow> error + real"
  pickle_dumps :: "'m \<Rightarrow> error + string"
  pickle_loads :: "string \<Rightarrow> error + 'm"

text \<open>
  \<open>open(path, 'rb')\<close> needs the file to exist and to be readable.  \<open>open(path, 'wb')\<close>
  creates the file or empties an existing, writable one.  \<open>pickle.dump\<close> writes the
  bytes of the object to the open file, \<open>pickle.load\<close> reads an object back from the
  bytes of the file.
\<close>

definition open_rb :: "kernel \<Rightarrow> string \<Rightarrow> error + string" where
  "open_rb k path =
     (case files k path of
        None \<Rightarrow> Inl FileNotFoundError
      | Some f \<Rightarrow> if readable f then Inr (content f) else Inl PermissionError)"

definition open_wb :: "kernel \<Rightarrow> string \<Rightarrow> error + kernel" where
  "open_wb k path =
     (case files k path of
        None \<Rightarrow>
          Inr (k\<lparr>files := (files k)(path \<mapsto> \<lparr>readable = True, writable = True, content = []\<rparr>)\<rparr>)
      | Some f \<Rightarrow>
          if writable f then Inr (k\<lparr>files := (files k)(path \<mapsto> f\<lparr>content := []\<rparr>)\<rparr>)
          else Inl PermissionError)"

definition write_file :: "kernel \<Rightarrow> string \<Rightarrow> string \<Rightarrow> kernel" where
  "write_file k path bytes =
     k\<lparr>files := (files k)(path := map_option (\<lambda>f. f\<lparr>content := content f @ bytes\<rparr>) (files k path))\<rparr>"

definition pickle_dump :: "('m, 'x, 'y) library \<Rightarrow> 'm \<Rightarrow> string \<Rightarrow> kernel \<Rightarrow> error + kernel" where
  "pickle_dump lib obj path k =
     bind_result (pickle_dumps lib obj) (\<lambda>bytes. Inr (write_file k path bytes))"

definition pickle_load :: "('m, 'x, 'y) library \<Rightarrow> string \<Rightarrow> kernel \<Rightarrow> error + 'm" where
  "pickle_load lib path k = bind_result (open_rb k path) (pickle_loads lib)"


section \<open>Model deployment and the champion/challenger cell\<close>


text \<open>
  \<^verbatim>\<open>
  champion = pickle.load(open('model.pkl', 'rb'))
  challenger = GaussianNB().fit(X_train, y_train)
  print(f1_score(y_test, champion.predict(X_test)))
  print(f1_score(y_test, challenger.predict(X_test)))
  # Write back to disk the best-performing model
  with open('model.pkl', 'wb') as file:
      pickle.dump(champion, file=file)
  \<close>
\<close>

definition champion_challenger_cell ::
  "('m, 'x, 'y) library \<Rightarrow> 'x \<Rightarrow> 'y \<Rightarrow> 'x \<Rightarrow> 'y \<Rightarrow> kernel \<Rightarrow> error + kernel" where
  "champion_challenger_cell lib X_train y_train X_test y_test k =
     bind_result (pickle_load lib ''model.pkl'' k) (\<lambda>champion.
     bind_result (fit_gaussian_nb lib X_train y_train) (\<lambda>challenger.
     bind_result (predict lib champion X_test) (\<lambda>preds_champion.
     bind_result (f1_score lib y_test preds_champion) (\<lambda>f1_champion.
     let k1 = print (FloatV (Num f1_champion)) k in
     bind_result (predict lib challenger X_test) (\<lambda>preds_challenger.
     bind_result (f1_score lib y_test preds_challenger) (\<lambda>f1_challenger.
     let k2 = print (FloatV (Num f1_challenger)) k1 in
     bind_result (open_wb k2 ''model.pkl'') (\<lambda>k3.
       pickle_dump lib champion ''model.pkl'' k3)))))))"

section \<open>The loan-default cost\<close>

text \<open>
  \<^verbatim>\<open>
  clf = RandomForestClassifier(random_state=2).fit(X_train, y_train)
  preds = clf.predict(X_test)
  tn, fp, fn, tp = confusion_matrix(y_test, preds).ravel()
  cost = fp*10 + fn*150
  print(cost)
  \<close>
  The labels of the credit data are booleans (\<open>credit['class'] == 'bad'\<close>).
\<close>

definition loan_cost_cell ::
  "('m, 'x, bool list) library \<Rightarrow> 'x \<Rightarrow> bool list \<Rightarrow> 'x \<Rightarrow> bool list \<Rightarrow> kernel \<Rightarrow> error + kernel" where
  "loan_cost_cell lib X_train y_train X_test y_test k =
     bind_result (fit_random_forest lib 2 X_train y_train) (\<lambda>clf.
     bind_result (predict lib clf X_test) (\<lambda>preds.
     bind_result (confusion_matrix y_test preds) (\<lambda>cm.
       case ravel cm of
         [tn, fp, fn, tp] \<Rightarrow> (let cost = fp * 10 + fn * 150 in Inr (print (IntV cost) k))
       | _ \<Rightarrow> Inl ValueError)))"

section \<open>Grid search\<close>

text \<open>
  Modelled from the spec: \<open>GridSearchCV\<close> is scikit-learn's class, configured by the
  notebooks and not part of the repository; the spec says that it "searches a small
  hyperparameter grid".  The model follows the library's documented behaviour: the
  candidates are all combinations that take one value from each parameter's list
  (\<open>ParameterGrid\<close>); \<open>fit\<close> gives each candidate its mean cross-validated score,
  here a function of the candidate, and \<open>best_params_\<close> is the candidate that ranks
  first, the earliest one among equals.  A grid with no candidate is a \<open>ValueError\<close>.
  A grid is a list of parameter names with their lists of values; the library goes
  through the parameters in the order of their names.
\<close>

type_synonym 'v param_grid = "(string \<times> 'v list) list"

type_synonym 'v params = "(string \<times> 'v) list"

fun ParameterGrid :: "'v param_grid \<Rightarrow> 'v params list" where
  "ParameterGrid [] = [[]]"
| "ParameterGrid ((name, vals) # grid) =
     concat (map (\<lambda>v. map (\<lambda>c. (name, v) # c) (ParameterGrid grid)) vals)"

definition best_candidate :: "('c \<Rightarrow> real) \<Rightarrow> 'c \<Rightarrow> 'c list \<Rightarrow> 'c" where
  "best_candidate score c cs = fold (\<lambda>x best. if score x > score best then x else best) cs c"

definition sorted_items :: "'v param_grid \<Rightarrow> 'v param_grid" where
  "sorted_items grid = sort_key fst grid"

definition GridSearchCV_fit :: "('v params \<Rightarrow> real) \<Rightarrow> 'v param_grid \<Rightarrow> error + 'v params" where
  "GridSearchCV_fit mean_test_score grid =
     (case ParameterGrid (sorted_items grid) of
        [] \<Rightarrow> Inl ValueError
      | c # cs \<Rightarrow> Inr (best_candidate mean_test_score c cs))"

text \<open>The grids of notebook 00: the pipeline's and the feature transformer's.\<close>

definition params_pipe :: "int param_grid" where
  "params_pipe = [(''feature_selection__k'', [10, 20]), (''clf__n_estimators'', [2, 5])]"

definition params_ft :: "int param_grid" where
  "params_ft = [(''ft__multiplier'', [1, 2, 3])]"

text \<open>A candidate takes, for each parameter of the grid in turn, one of its listed values.\<close>

definition drawn_from :: "'v params \<Rightarrow> 'v param_grid \<Rightarrow> bool" where
  "drawn_from c grid = list_all2 (\<lambda>(name, v) (name', vals). name = name' \<and> v \<in> set vals) c grid"

section \<open>Example inputs\<close>

text \<open>
  A small library to run the cells on: the random forest is the model \<open>''rf''\<close>, the
  naive Bayes classifier the model \<open>''nb''\<close>; each predicts a fixed label vector, the
  score is 1 for a perfect prediction and one half otherwise, and a model pickles to its
  name.  The cautious library differs in that every model predicts two negatives.  The
  kernel holds a deployed random forest.
\<close>

definition example_library :: "(string, unit, bool list) library" where
  "example_library =
     \<lparr>fit_random_forest = (\<lambda>seed X y. Inr ''rf''),
      fit_gaussian_nb = (\<lambda>X y. Inr ''nb''),
      predict = (\<lambda>m X. if m = ''rf'' then Inr [True, True, False, False]
                         else if m = ''nb'' then Inr [False, True, True, False]
                         else Inl NotFittedError),
      f1_score = (\<lambda>y p. if length y = length p then Inr (if y = p then 1 else 1 / 2)
                          else Inl ValueError),
      pickle_dumps = (\<lambda>m. Inr m),
      pickle_loads = (\<lambda>b. if b = ''rf'' \<or> b = ''nb'' then Inr b else Inl UnpicklingError)\<rparr>"

definition cautious_library :: "(string, unit, bool list) library" where
  "cautious_library = example_library\<lparr>predict := (\<lambda>m X. Inr [False, False])\<rparr>"

definition example_kernel :: kernel where
  "example_kernel =
     \<lparr>files = [''model.pkl'' \<mapsto> \<lparr>readable = True, writable = True, content = ''rf''\<rparr>],
      stdout = []\<rparr>"

text \<open>Three network flows of one source computer, and a small array of two columns.\<close>

definition flows_example :: dataframe where
  "flows_example =
     [''destination_port'' \<mapsto> [80, 443, 80],
      ''packet_count'' \<mapsto> [1, 2, 3],
      ''duration'' \<mapsto> [4, 5, 9]]"

definition weights_example :: heap where
  "weights_example = [\<lparr>ncols = 2, rows = [[1, 60], [2, 100], [3, 80]]\<rparr>]"

section \<open>Properties of the confusion matrix\<close>

lemma count_zip_index:
  "length xs = length ys \<Longrightarrow>
   count_list (zip xs ys) (a, b) = length (filter (\<lambda>i. xs ! i = a \<and> ys ! i = b) [0..<length xs])"
proof (induction xs ys rule: list_induct2)
  case Nil
  then show ?case by simp
next
  case (Cons x xs y ys)
  have "[0..<length (x # xs)] = 0 # map Suc [0..<length xs]"
    by (simp add: upt_conv_Cons map_Suc_upt del: upt_Suc)
  then show ?case using Cons.IH
    by (simp add: filter_map comp_def del: upt_Suc)
qed

lemma false_positive_count_zip:
  "length y_test = length y_est \<Longrightarrow>
   count_list (zip y_test y_est) (False, True) = false_positive_count y_test y_est"
  by (simp add: count_zip_index false_positive_count_def)

lemma false_negative_count_zip:
  "length y_test = length y_est \<Longrightarrow>
   count_list (zip y_test y_est) (True, False) = false_negative_count y_test y_est"
  by (simp add: count_zip_index false_negative_count_def)

lemma labels_both:
  assumes "both_labels_occur y_test y_est"
  shows "unique_labels y_test y_est = [False, True]"
proof -
  have "set (y_test @ y_est) = {False, True}"
    using assms unfolding both_labels_occur_def by auto
  then have "sorted_list_of_set (set (y_test @ y_est)) = [False, True]"
    by simp
  then show ?thesis
    unfolding unique_labels_def by (simp only: sorted_list_of_set_sort_remdups)
qed

lemma bool_set_cases:
  fixes S :: "bool set"
  assumes "\<not> (True \<in> S \<and> False \<in> S)"
  shows "S \<subseteq> {True} \<or> S \<subseteq> {False}"
proof (cases "True \<in> S")
  case True
  with assms have "False \<notin> S" by simp
  then have "\<And>x. x \<in> S \<Longrightarrow> x" by (case_tac x) simp_all
  then show ?thesis by auto
next
  case False
  then have "\<And>x. x \<in> S \<Longrightarrow> \<not> x" by (case_tac x) simp_all
  then show ?thesis by auto
qed

lemma labels_not_both:
  assumes "\<not> both_labels_occur y_test y_est"
  shows "length (unique_labels y_test y_est) \<le> 1"
proof -
  have "set (y_test @ y_est) \<subseteq> {True} \<or> set (y_test @ y_est) \<subseteq> {False}"
    using assms unfolding both_labels_occur_def by (rule bool_set_cases)
  then have "card (set (y_test @ y_est)) \<le> 1"
  proof
    assume "set (y_test @ y_est) \<subseteq> {True}"
    then have "card (set (y_test @ y_est)) \<le> card {True}"
      by (intro card_mono) simp_all
    then show ?thesis by simp
  next
    assume "set (y_test @ y_est) \<subseteq> {False}"
    then have "card (set (y_test @ y_est)) \<le> card {False}"
      by (intro card_mono) simp_all
    then show ?thesis by simp
  qed
  then show ?thesis
    unfolding unique_labels_def by (simp add: length_remdups_card_conv del: set_append)
qed

lemma confusion_matrix_two_labels:
  assumes "length y_test = length y_est" and "both_labels_occur y_test y_est"
  shows "confusion_matrix y_test y_est =
     Inr [[int (count_list (zip y_test y_est) (False, False)),
           int (false_positive_count y_test y_est)],
          [int (false_negative_count y_test y_est),
           int (count_list (zip y_test y_est) (True, True))]]"
  using assms
  by (simp add: confusion_matrix_def labels_both false_positive_count_zip false_negative_count_zip)

lemma confusion_matrix_one_label:
  assumes "length y_test = length y_est" and "\<not> both_labels_occur y_test y_est"
  shows "\<exists>cm. confusion_matrix y_test y_est = Inr cm \<and> length (ravel cm) \<le> 1"
proof -
  let ?ls = "unique_labels y_test y_est"
  have "?ls = [] \<or> (\<exists>l. ?ls = [l])"
    using labels_not_both [OF assms(2)]
    by (cases ?ls) (auto simp: Suc_le_eq)
  then show ?thesis
    using assms(1) by (auto simp: confusion_matrix_def ravel_def Let_def)
qed

section \<open>The cost-weighted score\<close>

lemma wrap64_id: "in_int64 x \<Longrightarrow> wrap64 x = x"
  by (simp add: in_int64_def wrap64_def)

lemma wrap_add:
  fixes a b h m :: int
  shows "(((a + h) mod m - h) + ((b + h) mod m - h) + h) mod m = (a + b + h) mod m"
proof -
  have "((a + h) mod m - h) + ((b + h) mod m - h) + h = (a + h) mod m + (b + h) mod m - h"
    by simp
  then have "(((a + h) mod m - h) + ((b + h) mod m - h) + h) mod m =
      ((a + h) mod m + (b + h) mod m - h) mod m"
    by simp
  also have "\<dots> = (((a + h) mod m + (b + h) mod m) mod m - h) mod m"
    by (simp only: mod_diff_left_eq)
  also have "\<dots> = (((a + h) + (b + h)) mod m - h) mod m"
    by (simp only: mod_add_eq)
  also have "\<dots> = ((a + h) + (b + h) - h) mod m"
    by (simp only: mod_diff_left_eq)
  also have "(a + h) + (b + h) - h = a + b + h"
    by simp
  finally show ?thesis .
qed

lemma wrap64_add: "wrap64 (wrap64 a + wrap64 b) = wrap64 (a + b)"
  unfolding wrap64_def by (simp only: wrap_add)

lemma my_scorer_eq_my_metric: "my_scorer = my_metric"
  by (intro ext) (simp add: my_scorer_def my_metric_def)

lemma my_metric_two_labels:
  assumes "length y_test = length y_est" and "both_labels_occur y_test y_est"
  shows "my_metric y_test y_est cost_fp cost_fn k =
     (bind_result (np_mul (kwarg (PyFloat 10) cost_fp) (int (false_positive_count y_test y_est)))
        (\<lambda>weighted_fp.
      bind_result (np_mul (kwarg (PyFloat 1) cost_fn) (int (false_negative_count y_test y_est)))
        (\<lambda>weighted_fn. Inr (np_add weighted_fp weighted_fn))), k)"
  by (simp add: my_metric_def confusion_matrix_two_labels [OF assms] bind_py_def compute_def
      return_py_def raise_py_def unpack4_def bind_result_def ravel_def split: sum.splits)

lemma my_metric_one_label:
  assumes "length y_test = length y_est" and "\<not> both_labels_occur y_test y_est"
  shows "my_metric y_test y_est cost_fp cost_fn k = (Inl ValueError, k)"
proof -
  obtain cm where cm: "confusion_matrix y_test y_est = Inr cm" "length (ravel cm) \<le> 1"
    using confusion_matrix_one_label [OF assms] by blast
  from cm(2) have "ravel cm = [] \<or> (\<exists>v. ravel cm = [v])"
    by (cases "ravel cm") (auto simp: Suc_le_eq)
  then show ?thesis
    by (auto simp: my_metric_def cm(1) bind_py_def compute_def return_py_def raise_py_def
        unpack4_def)
qed

lemma my_metric_length_mismatch:
  "length y_test \<noteq> length y_est \<Longrightarrow>
   my_metric y_test y_est cost_fp cost_fn k = (Inl ValueError, k)"
  by (simp add: my_metric_def confusion_matrix_def bind_py_def compute_def raise_py_def)

text \<open>
  Claim C1, as amended.  For label vectors of equal length in which both label values
  occur (in \<open>y_test\<close> or in \<open>y_est\<close>), \<open>my_metric\<close> and \<open>my_scorer\<close> return exactly
  \<open>false_positive_count * cost_fp + false_negative_count * cost_fn\<close> when the weights
  are floats.  A weight that is an integer within \<open>int64\<close> is multiplied in 64-bit
  arithmetic: with two such weights the score is that value reduced modulo \<open>2^64\<close> into
  the \<open>int64\<close> range, which is the value itself when it fits; with one such weight its
  product alone is reduced.  When only one label value occurs, or the vectors are empty,
  the confusion matrix has fewer than four entries and both functions raise
  \<open>ValueError\<close> at the tuple assignment.  A call leaves the kernel as it was.
\<close>

theorem cost_weighted_score:
  assumes "length y_test = length y_est"
  shows "my_metric y_test y_est (Some (PyFloat cost_fp)) (Some (PyFloat cost_fn)) k =
           (if both_labels_occur y_test y_est
            then Inr (FloatV (Num (real (false_positive_count y_test y_est) * cost_fp
                                   + real (false_negative_count y_test y_est) * cost_fn)))
            else Inl ValueError, k)
       \<and> (in_int64 c_fp \<and> in_int64 c_fn \<longrightarrow>
           my_metric y_test y_est (Some (PyInt c_fp)) (Some (PyInt c_fn)) k =
             (if both_labels_occur y_test y_est
              then Inr (IntV (wrap64 (int (false_positive_count y_test y_est) * c_fp
                                      + int (false_negative_count y_test y_est) * c_fn)))
              else Inl ValueError, k))
       \<and> (in_int64 (int (false_positive_count y_test y_est) * c_fp
                    + int (false_negative_count y_test y_est) * c_fn) \<longrightarrow>
           wrap64 (int (false_positive_count y_test y_est) * c_fp
                   + int (false_negative_count y_test y_est) * c_fn) =
             int (false_positive_count y_test y_est) * c_fp
             + int (false_negative_count y_test y_est) * c_fn)
       \<and> (in_int64 c_fn \<longrightarrow>
           my_metric y_test y_est (Some (PyFloat cost_fp)) (Some (PyInt c_fn)) k =
             (if both_labels_occur y_test y_est
              then Inr (FloatV (Num (real (false_positive_count y_test y_est) * cost_fp
                     + real_of_int (wrap64 (int (false_negative_count y_test y_est) * c_fn)))))
              else Inl ValueError, k))
       \<and> (in_int64 c_fp \<longrightarrow>
           my_metric y_test y_est (Some (PyInt c_fp)) (Some (PyFloat cost_fn)) k =
             (if both_labels_occur y_test y_est
              then Inr (FloatV (Num
                     (real_of_int (wrap64 (int (false_positive_count y_test y_est) * c_fp))
                      + real (false_negative_count y_test y_est) * cost_fn)))
              else Inl ValueError, k))
       \<and> my_scorer y_test y_est w_fp w_fn k = my_metric y_test y_est w_fp w_fn k"
  using assms
  by (simp add: my_metric_two_labels my_metric_one_label my_scorer_eq_my_metric kwarg_def
      bind_result_def wrap64_add wrap64_id mult.commute)

theorem cost_weighted_score_witness:
  "length [False, True, True] = length [True, True, False]
   \<and> both_labels_occur [False, True, True] [True, True, False]
   \<and> my_metric [False, True, True] [True, True, False] (Some (PyFloat 3)) (Some (PyFloat 4))
       example_kernel = (Inr (FloatV (Num 7)), example_kernel)
   \<and> my_metric [False, True, True] [True, True, False] (Some (PyInt 3)) (Some (PyInt 4))
       example_kernel = (Inr (IntV 7), example_kernel)
   \<and> my_scorer [False, True, True] [True, True, False] (Some (PyFloat 3)) (Some (PyFloat 4))
       example_kernel = (Inr (FloatV (Num 7)), example_kernel)
   \<and> \<not> both_labels_occur [True, True] [True, True]
   \<and> my_metric [True, True] [True, True] (Some (PyFloat 3)) (Some (PyFloat 4)) example_kernel =
       (Inl ValueError, example_kernel)"
  using cost_weighted_score [of "[False, True, True]" "[True, True, False]" 3 4 example_kernel
      3 4 "Some (PyFloat 3)" "Some (PyFloat 4)"]
    cost_weighted_score [of "[True, True]" "[True, True]" 3 4 example_kernel 3 4]
  by (simp add: both_labels_occur_def false_positive_count_def false_negative_count_def
      in_int64_def wrap64_def)

text \<open>
  The claim as first stated, for every pair of boolean vectors of equal length and every
  pair of weights, fails in two places.  Where no prediction and no label is true there
  are no false positives and no false negatives, so the score would be 0, and the
  functions raise instead.  With the integer weights \<open>2^62\<close> and 1, two false positives
  and one false negative, the score would be \<open>2^63 + 1\<close>, and the functions return
  \<open>- 2^63 + 1\<close>.
\<close>

theorem cost_weighted_score_counterexample:
  "length [False] = length [False]
   \<and> fst (my_metric [False] [False] (Some (PyFloat 3)) (Some (PyFloat 4)) example_kernel) \<noteq>
       Inr (FloatV (Num (real (false_positive_count [False] [False]) * 3
                         + real (false_negative_count [False] [False]) * 4)))
   \<and> fst (my_scorer [False] [False] (Some (PyFloat 3)) (Some (PyFloat 4)) example_kernel) \<noteq>
       Inr (FloatV (Num (real (false_positive_count [False] [False]) * 3
                         + real (false_negative_count [False] [False]) * 4)))
   \<and> fst (my_metric [False] [False] (Some (PyFloat 3)) (Some (PyFloat 4)) example_kernel) =
       Inl ValueError
   \<and> int (false_positive_count [False, False, True] [True, True, False]) * 4611686018427387904
       + int (false_negative_count [False, False, True] [True, True, False]) * 1 =
       9223372036854775809
   \<and> fst (my_metric [False, False, True] [True, True, False]
            (Some (PyInt 4611686018427387904)) (Some (PyInt 1)) example_kernel) =
       Inr (IntV (- 9223372036854775807))"
  by (simp add: my_metric_def my_scorer_def confusion_matrix_def unique_labels_def ravel_def
      bind_py_def compute_def return_py_def raise_py_def unpack4_def kwarg_def
      false_positive_count_def false_negative_count_def in_int64_def wrap64_def)

text \<open>
  Claim C9, as amended.  Called without cost weights, the scoring functions use
  \<open>cost_fp = 10.0\<close> and \<open>cost_fn = 1.0\<close>: for label vectors of equal length in which
  both label values occur the score is 10.0 times the false-positive count plus 1.0 times
  the false-negative count; when only one label value occurs they raise \<open>ValueError\<close>.
\<close>

theorem default_cost_weights:
  assumes "length y_test = length y_est"
  shows "my_metric y_test y_est None None k =
           (if both_labels_occur y_test y_est
            then Inr (FloatV (Num (10.0 * real (false_positive_count y_test y_est)
                                   + 1.0 * real (false_negative_count y_test y_est))))
            else Inl ValueError, k)
       \<and> my_scorer y_test y_est None None k =
           (if both_labels_occur y_test y_est
            then Inr (FloatV (Num (10.0 * real (false_positive_count y_test y_est)
                                   + 1.0 * real (false_negative_count y_test y_est))))
            else Inl ValueError, k)"
  using assms
  by (simp add: my_metric_two_labels my_metric_one_label my_scorer_eq_my_metric kwarg_def
      bind_result_def)

theorem default_cost_weights_witness:
  "length [False, False, True] = length [True, True, False]
   \<and> my_metric [False, False, True] [True, True, False] None None example_kernel =
       (Inr (FloatV (Num 21)), example_kernel)
   \<and> my_scorer [False, False, True] [True, True, False] None None example_kernel =
       (Inr (FloatV (Num 21)), example_kernel)"
  using default_cost_weights [of "[False, False, True]" "[True, True, False]" example_kernel]
  by (simp add: both_labels_occur_def false_positive_count_def false_negative_count_def)

text \<open>
  The claim as first stated, for every pair of label vectors, fails where every label and
  every prediction is true: the default score would be 0, and the functions raise.
\<close>

theorem default_cost_weights_counterexample:
  "fst (my_metric [True] [True] None None example_kernel) \<noteq>
     Inr (FloatV (Num (10.0 * real (false_positive_count [True] [True])
                       + 1.0 * real (false_negative_count [True] [True]))))
   \<and> fst (my_scorer [True] [True] None None example_kernel) \<noteq>
     Inr (FloatV (Num (10.0 * real (false_positive_count [True] [True])
                       + 1.0 * real (false_negative_count [True] [True]))))
   \<and> fst (my_metric [True] [True] None None example_kernel) = Inl ValueError
   \<and> fst (my_scorer [True] [True] None None example_kernel) = Inl ValueError"
  by (simp add: my_metric_def my_scorer_def confusion_matrix_def unique_labels_def ravel_def
      bind_py_def compute_def return_py_def raise_py_def unpack4_def kwarg_def)


lemma print_py_changes_kernel: "snd (print_py v k) \<noteq> k"
proof
  assume "snd (print_py v k) = k"
  then have "stdout (print v k) = stdout k"
    by (simp add: print_py_def)
  then show False
    by (simp add: print_def)
qed


section \<open>The loan-default cost\<close>

text \<open>
  Claim C6, as amended.  The loan-default cell computes its cost from the predictions and
  the held-out labels only.  When \<open>y_test\<close> and \<open>preds\<close> have the same length and both
  label values occur among them, the cell prints \<open>fp*10 + fn*150\<close>, where \<open>fp\<close> and
  \<open>fn\<close> are the numbers of false positives and of false negatives, and changes nothing
  else.  When only one label value occurs the confusion matrix has a single entry and the
  cell raises \<open>ValueError\<close> at the tuple assignment, printing nothing.
\<close>

theorem loan_cost:
  assumes "fit_random_forest lib 2 X_train y_train = Inr clf"
    and "predict lib clf X_test = Inr preds"
  shows "loan_cost_cell lib X_train y_train X_test y_test k =
           (if length y_test = length preds \<and> both_labels_occur y_test preds
            then Inr (k\<lparr>stdout := stdout k @
                   [IntV (int (false_positive_count y_test preds) * 10
                          + int (false_negative_count y_test preds) * 150)]\<rparr>)
            else Inl ValueError)"
proof (cases "length y_test = length preds")
  case False
  then show ?thesis
    by (simp add: loan_cost_cell_def assms bind_result_def confusion_matrix_def)
next
  case len: True
  show ?thesis
  proof (cases "both_labels_occur y_test preds")
    case True
    then show ?thesis
      using len
      by (simp add: loan_cost_cell_def assms bind_result_def ravel_def print_def
          confusion_matrix_two_labels)
  next
    case False
    obtain cm where cm: "confusion_matrix y_test preds = Inr cm" "length (ravel cm) \<le> 1"
      using confusion_matrix_one_label [OF len False] by blast
    from cm(2) have "ravel cm = [] \<or> (\<exists>v. ravel cm = [v])"
      by (cases "ravel cm") (auto simp: Suc_le_eq)
    then show ?thesis
      using False by (auto simp: loan_cost_cell_def assms cm(1) bind_result_def)
  qed
qed

theorem loan_cost_witness:
  "loan_cost_cell example_library () [] () [False, True, True, False]
       \<lparr>files = Map.empty, stdout = []\<rparr> =
     Inr \<lparr>files = Map.empty, stdout = [IntV 160]\<rparr>
   \<and> loan_cost_cell cautious_library () [] () [False, False]
       \<lparr>files = Map.empty, stdout = []\<rparr> = Inl ValueError"
  using loan_cost [of example_library "()" "[]" "''rf''" "()" "[True, True, False, False]"
      "[False, True, True, False]" "\<lparr>files = Map.empty, stdout = []\<rparr>"]
    loan_cost [of cautious_library "()" "[]" "''rf''" "()" "[False, False]"
      "[False, False]" "\<lparr>files = Map.empty, stdout = []\<rparr>"]
  by (simp add: example_library_def cautious_library_def both_labels_occur_def
      false_positive_count_def false_negative_count_def)

text \<open>
  The claim as first stated, for any held-out labels and predictions, fails where no
  customer is labelled or predicted bad: the confusion matrix of two true negatives has
  no false positive and no false negative, so the printed cost would be 0, and the cell
  raises and prints nothing.
\<close>

theorem loan_cost_counterexample:
  "loan_cost_cell cautious_library () [] () [False, False] \<lparr>files = Map.empty, stdout = []\<rparr> \<noteq>
     Inr \<lparr>files = Map.empty,
          stdout = [IntV (int (false_positive_count [False, False] [False, False]) * 10
                          + int (false_negative_count [False, False] [False, False]) * 150)]\<rparr>
   \<and> loan_cost_cell cautious_library () [] () [False, False] \<lparr>files = Map.empty, stdout = []\<rparr> =
     Inl ValueError"
  by (simp add: loan_cost_cell_def cautious_library_def example_library_def bind_result_def
      confusion_matrix_def unique_labels_def ravel_def)

section \<open>Feature extraction\<close>

lemma len_set_card: "len_set xs = card (set xs)"
  by (simp add: len_set_def length_remdups_card_conv)

text \<open>
  Claim C4.  For a non-empty table with the columns \<open>destination_port\<close>,
  \<open>packet_count\<close> and \<open>duration\<close>, \<open>featurize\<close> returns a dictionary of exactly
  three fields: \<open>unique_ports\<close> is the number of distinct values of the
  \<open>destination_port\<close> column, \<open>average_packet\<close> the arithmetic mean of the
  \<open>packet_count\<close> column and \<open>average_duration\<close> that of the \<open>duration\<close> column.
\<close>

theorem featurize_fields:
  assumes "df ''destination_port'' = Some ports"
    and "df ''packet_count'' = Some packets"
    and "df ''duration'' = Some durations"
    and "length packets = length ports" and "length durations = length ports"
    and "ports \<noteq> []"
  shows "\<exists>r. featurize df = Inr r
       \<and> dom r = {''unique_ports'', ''average_packet'', ''average_duration''}
       \<and> r ''unique_ports'' = Some (IntV (int (card (set ports))))
       \<and> r ''average_packet'' = Some (FloatV (Num (sum_list packets / real (length packets))))
       \<and> r ''average_duration'' =
           Some (FloatV (Num (sum_list durations / real (length durations))))"
proof -
  have ne: "packets \<noteq> []" "durations \<noteq> []"
    using assms(4-6) by auto
  show ?thesis
    using assms(1-3) ne
    by (auto simp: featurize_def column_def bind_result_def np_mean_def len_set_card)
qed

theorem featurize_fields_witness:
  "\<exists>r. featurize flows_example = Inr r
     \<and> dom r = {''unique_ports'', ''average_packet'', ''average_duration''}
     \<and> r ''unique_ports'' = Some (IntV 2)
     \<and> r ''average_packet'' = Some (FloatV (Num 2))
     \<and> r ''average_duration'' = Some (FloatV (Num 6))"
proof -
  have "card (set [80, 443, 80 :: real]) = length (remdups [80, 443, 80 :: real])"
    by (rule length_remdups_card_conv [symmetric])
  then have "card (set [80, 443, 80 :: real]) = 2"
    by simp
  then show ?thesis
    using featurize_fields [of flows_example "[80, 443, 80]" "[1, 2, 3]" "[4, 5, 9]"]
    by (simp add: flows_example_def)
qed

section \<open>The feature transformer\<close>

lemma map2_map_same: "map2 f xs (map g xs) = map (\<lambda>x. f x (g x)) xs"
  by (induction xs) simp_all

lemma more_than_average_result:
  assumes "X < length h" and "2 \<le> ncols (h ! X)"
  shows "more_than_average h X (Some m) =
     Inr (length h,
          h @ [(h ! X)\<lparr>rows := map (\<lambda>r. r[1 := of_bool
                 (case np_mean (map (\<lambda>r. r ! 1) (rows (h ! X))) of
                    NaN \<Rightarrow> False | Num mean \<Rightarrow> r ! 1 > m * mean)]) (rows (h ! X))\<rparr>])"
  using assms
  by (simp add: more_than_average_def np_copy_def get_column1_def set_column1_def
      greater_than_def bind_result_def kwarg_def nth_append map2_map_same comp_def
      split: npfloat.split)

text \<open>
  Claim C10.  For a two-dimensional array \<open>X\<close> with at least two columns and every
  multiplier \<open>m\<close>, \<open>more_than_average\<close> returns a new array \<open>Z\<close> and leaves \<open>X\<close>,
  like every array that existed before the call, as it was; \<open>Z\<close> has the shape of \<open>X\<close>
  and equals it in every column but column 1, whose entries are 1 or 0 according to
  whether the entry of \<open>X\<close> exceeds \<open>m\<close> times the mean of column 1 of \<open>X\<close>.
\<close>

theorem more_than_average_frame:
  assumes "X < length h" and "wf_ndarray (h ! X)" and "2 \<le> ncols (h ! X)"
  shows "\<exists>Z h'. more_than_average h X (Some m) = Inr (Z, h')
       \<and> Z \<noteq> X \<and> Z < length h' \<and> take (length h) h' = h \<and> h' ! X = h ! X
       \<and> ncols (h' ! Z) = ncols (h ! X) \<and> length (rows (h' ! Z)) = length (rows (h ! X))
       \<and> (\<forall>i<length (rows (h ! X)). \<forall>j<ncols (h ! X).
            rows (h' ! Z) ! i ! j =
              (if j = 1
               then of_bool (rows (h ! X) ! i ! 1 >
                      m * (sum_list (map (\<lambda>r. r ! 1) (rows (h ! X)))
                           / real (length (rows (h ! X)))))
               else rows (h ! X) ! i ! j))"
proof -
  let ?A = "h ! X"
  let ?mean = "np_mean (map (\<lambda>r. r ! 1) (rows ?A))"
  let ?B = "?A\<lparr>rows := map (\<lambda>r. r[1 := of_bool
                 (case ?mean of NaN \<Rightarrow> False | Num mean \<Rightarrow> r ! 1 > m * mean)]) (rows ?A)\<rparr>"
  have res: "more_than_average h X (Some m) = Inr (length h, h @ [?B])"
    using assms(1,3) by (rule more_than_average_result)
  have entries: "rows ?B ! i ! j =
      (if j = 1
       then of_bool (rows ?A ! i ! 1 >
              m * (sum_list (map (\<lambda>r. r ! 1) (rows ?A)) / real (length (rows ?A))))
       else rows ?A ! i ! j)"
    if i: "i < length (rows ?A)" and j: "j < ncols ?A" for i j
  proof -
    have ne: "rows ?A \<noteq> []" using i by auto
    have len: "length (rows ?A ! i) = ncols ?A"
      using assms(2) i by (simp add: wf_ndarray_def list_all_length)
    have mean: "?mean = Num (sum_list (map (\<lambda>r. r ! 1) (rows ?A)) / real (length (rows ?A)))"
      using ne by (simp add: np_mean_def)
    show ?thesis
      unfolding mean using i j len assms(3) by (simp add: nth_list_update)
  qed
  have "(length h, h @ [?B]) = (length h, h @ [?B])
       \<and> length h \<noteq> X \<and> length h < length (h @ [?B]) \<and> take (length h) (h @ [?B]) = h
       \<and> (h @ [?B]) ! X = h ! X
       \<and> ncols ((h @ [?B]) ! length h) = ncols ?A
       \<and> length (rows ((h @ [?B]) ! length h)) = length (rows ?A)"
    using assms(1) by (simp add: nth_append)
  moreover have "\<forall>i<length (rows ?A). \<forall>j<ncols ?A.
      rows ((h @ [?B]) ! length h) ! i ! j =
        (if j = 1
         then of_bool (rows ?A ! i ! 1 >
                m * (sum_list (map (\<lambda>r. r ! 1) (rows ?A)) / real (length (rows ?A))))
         else rows ?A ! i ! j)"
    using entries by (simp only: nth_append_length) blast
  ultimately show ?thesis
    unfolding res by blast
qed

theorem more_than_average_frame_witness:
  "0 < length weights_example \<and> wf_ndarray (weights_example ! 0)
   \<and> 2 \<le> ncols (weights_example ! 0)
   \<and> more_than_average weights_example 0 (Some 1) =
       Inr (1, [\<lparr>ncols = 2, rows = [[1, 60], [2, 100], [3, 80]]\<rparr>,
                \<lparr>ncols = 2, rows = [[1, 0], [2, 1], [3, 0]]\<rparr>])"
proof -
  have a: "0 < length weights_example" and b: "wf_ndarray (weights_example ! 0)"
    and c: "2 \<le> ncols (weights_example ! 0)"
    by (simp_all add: weights_example_def wf_ndarray_def)
  have run: "more_than_average weights_example 0 (Some 1) =
       Inr (1, [\<lparr>ncols = 2, rows = [[1, 60], [2, 100], [3, 80]]\<rparr>,
                \<lparr>ncols = 2, rows = [[1, 0], [2, 1], [3, 0]]\<rparr>])"
    by (simp add: more_than_average_def np_copy_def get_column1_def set_column1_def
        greater_than_def np_mean_def bind_result_def kwarg_def weights_example_def)
  show ?thesis
    using more_than_average_frame [OF a b c, of 1] a b c run by simp
qed

section \<open>The champion/challenger cell\<close>

text \<open>
  Claim C3.  When the champion/challenger cell completes, the model written back to
  \<open>model.pkl\<close> is the champion, the model that the cell loaded from that file, for
  every pair of F1 scores that the two models reach: the file written does not depend on
  the scores, nor on the challenger.
\<close>

theorem champion_written_back:
  assumes "files k ''model.pkl'' = Some f" and "readable f" and "writable f"
    and "pickle_loads lib (content f) = Inr champion"
    and "fit_gaussian_nb lib X_train y_train = Inr challenger"
    and "predict lib champion X_test = Inr preds_champion"
    and "f1_score lib y_test preds_champion = Inr f1_champion"
    and "predict lib challenger X_test = Inr preds_challenger"
    and "f1_score lib y_test preds_challenger = Inr f1_challenger"
    and "pickle_dumps lib champion = Inr bytes"
  shows "champion_challenger_cell lib X_train y_train X_test y_test k =
     Inr \<lparr>files = (files k)(''model.pkl'' \<mapsto> f\<lparr>content := bytes\<rparr>),
          stdout = stdout k @ [FloatV (Num f1_champion), FloatV (Num f1_challenger)]\<rparr>"
  using assms
  by (simp add: champion_challenger_cell_def pickle_load_def pickle_dump_def open_rb_def
      open_wb_def write_file_def print_def bind_result_def)

theorem champion_written_back_witness:
  "champion_challenger_cell example_library () [] () [False, True, True, False] example_kernel =
     Inr \<lparr>files = [''model.pkl'' \<mapsto> \<lparr>readable = True, writable = True, content = ''rf''\<rparr>],
          stdout = [FloatV (Num (1 / 2)), FloatV (Num 1)]\<rparr>"
  using champion_written_back [of example_kernel
      "\<lparr>readable = True, writable = True, content = ''rf''\<rparr>" example_library
      "''rf''" "()" "[]" "''nb''" "()" "[True, True, False, False]"
      "[False, True, True, False]" "1 / 2" "[False, True, True, False]" 1 "''rf''"]
  by (simp add: example_library_def example_kernel_def)

section \<open>Persistence of the deployed model\<close>



section \<open>Exceptions\<close>





section \<open>Selection by grid search\<close>

lemma ParameterGrid_drawn_from: "c \<in> set (ParameterGrid grid) \<Longrightarrow> drawn_from c grid"
proof (induction grid arbitrary: c rule: ParameterGrid.induct)
  case 1
  then show ?case by (simp add: drawn_from_def)
next
  case (2 name vals grid)
  then show ?case by (auto simp: drawn_from_def)
qed

lemma best_candidate_mem: "best_candidate score c cs \<in> set (c # cs)"
  unfolding best_candidate_def
  by (induction cs arbitrary: c) (auto split: if_splits)

lemma ParameterGrid_Nil_iff:
  "ParameterGrid grid = [] \<longleftrightarrow> \<not> list_all (\<lambda>(name, vals). vals \<noteq> []) grid"
  by (induction grid rule: ParameterGrid.induct) auto

lemma drawn_from_mem:
  assumes "drawn_from c grid" and "(name, vals) \<in> set grid"
  shows "\<exists>v\<in>set vals. (name, v) \<in> set c"
proof -
  obtain i where i: "i < length grid" "grid ! i = (name, vals)"
    using assms(2) by (auto simp: in_set_conv_nth)
  have len: "length c = length grid"
    using assms(1) by (simp add: drawn_from_def list_all2_lengthD)
  have "(\<lambda>(name, v) (name', vals). name = name' \<and> v \<in> set vals) (c ! i) (grid ! i)"
    using assms(1) i(1) unfolding drawn_from_def by (rule list_all2_nthD2)
  then have "fst (c ! i) = name \<and> snd (c ! i) \<in> set vals"
    using i(2) by (simp add: case_prod_beta)
  moreover have "c ! i \<in> set c"
    using i(1) len by simp
  ultimately show ?thesis
    by (metis prod.collapse)
qed

text \<open>
  Claim C7.  Grid search selects only from the supplied grid: whenever fitting returns,
  \<open>best_params_\<close> gives every parameter of the grid one of the values listed for it
  (and has the parameters of the grid, in the order of their names), and fitting returns
  for every grid whose value lists are not empty.
\<close>

theorem grid_search_selects_from_grid:
  "(GridSearchCV_fit mean_test_score grid = Inr best \<longrightarrow>
      drawn_from best (sorted_items grid)
      \<and> (\<forall>(name, vals)\<in>set grid. \<exists>v\<in>set vals. (name, v) \<in> set best))
   \<and> (list_all (\<lambda>(name, vals). vals \<noteq> []) grid \<longrightarrow>
        (\<exists>best. GridSearchCV_fit mean_test_score grid = Inr best))"
proof (intro conjI impI)
  assume fit: "GridSearchCV_fit mean_test_score grid = Inr best"
  then obtain c cs where "ParameterGrid (sorted_items grid) = c # cs"
      "best = best_candidate mean_test_score c cs"
    by (auto simp: GridSearchCV_fit_def split: list.splits)
  then have "best \<in> set (ParameterGrid (sorted_items grid))"
    using best_candidate_mem [of mean_test_score c cs] by simp
  then show drawn: "drawn_from best (sorted_items grid)"
    by (rule ParameterGrid_drawn_from)
  show "\<forall>(name, vals)\<in>set grid. \<exists>v\<in>set vals. (name, v) \<in> set best"
  proof (clarify)
    fix name vals
    assume "(name, vals) \<in> set grid"
    then have "(name, vals) \<in> set (sorted_items grid)"
      by (simp add: sorted_items_def)
    with drawn show "\<exists>v\<in>set vals. (name, v) \<in> set best"
      by (rule drawn_from_mem)
  qed
next
  assume "list_all (\<lambda>(name, vals). vals \<noteq> []) grid"
  then have "list_all (\<lambda>(name, vals). vals \<noteq> []) (sorted_items grid)"
    by (simp add: list_all_iff sorted_items_def)
  then have "ParameterGrid (sorted_items grid) \<noteq> []"
    by (simp add: ParameterGrid_Nil_iff)
  then show "\<exists>best. GridSearchCV_fit mean_test_score grid = Inr best"
    by (cases "ParameterGrid (sorted_items grid)") (simp_all add: GridSearchCV_fit_def)
qed

theorem grid_search_selects_from_grid_witness:
  "GridSearchCV_fit (\<lambda>c. if c = [(''ft__multiplier'', 2)] then 1 else 0) params_ft =
     Inr [(''ft__multiplier'', 2)]
   \<and> drawn_from [(''ft__multiplier'', 2)] (sorted_items params_ft)
   \<and> list_all (\<lambda>(name, vals). vals \<noteq> []) params_pipe
   \<and> GridSearchCV_fit (\<lambda>c. if c = [(''clf__n_estimators'', 5), (''feature_selection__k'', 10)]
                             then 1 else 0) params_pipe =
       Inr [(''clf__n_estimators'', 5), (''feature_selection__k'', 10)]"
proof -
  have run: "GridSearchCV_fit (\<lambda>c. if c = [(''ft__multiplier'', 2)] then 1 else 0) params_ft =
     Inr [(''ft__multiplier'', 2)]"
    by (simp add: GridSearchCV_fit_def best_candidate_def params_ft_def sorted_items_def)
  have ne: "list_all (\<lambda>(name, vals). vals \<noteq> []) params_pipe"
    by (simp add: params_pipe_def)
  have run2: "GridSearchCV_fit
       (\<lambda>c. if c = [(''clf__n_estimators'', 5), (''feature_selection__k'', 10)] then 1 else 0)
       params_pipe = Inr [(''clf__n_estimators'', 5), (''feature_selection__k'', 10)]"
    by (simp add: GridSearchCV_fit_def best_candidate_def params_pipe_def sorted_items_def)
  show ?thesis
    using grid_search_selects_from_grid
        [of "\<lambda>c. if c = [(''ft__multiplier'', 2)] then 1 else 0" params_ft "[(''ft__multiplier'', 2)]"]
      grid_search_selects_from_grid
        [of "\<lambda>c. if c = [(''clf__n_estimators'', 5), (''feature_selection__k'', 10)] then 1 else 0"
           params_pipe] run run2 ne
    by simp
qed

end
